theory Spec2Isabelle
  imports Main "HOL-Library.Multiset" "HOL-Library.Product_Lexorder"
begin

text \<open>
  A shallow embedding of the ingestion pipeline and the task organizer of \<open>src/App.tsx\<close>
  (token extraction, priority inference, \<open>parseTask\<close>, the list order, the board
  buckets, the reschedule transitions, the priority bump, JSON import and export),
  followed by the properties the specification states about them. The definitions come
  first and keep the names of the source; the properties follow, one section per
  component.
\<close>

section \<open>Instants and the local calendar\<close>

text \<open>
  Instants are epoch milliseconds (\<open>Date.getTime()\<close>, \<open>Date.now()\<close>), modelled as \<open>int\<close>.
  The JavaScript \<open>Date\<close> object belongs to the runtime, not to \<open>App.tsx\<close>; its local-time
  conversion is modelled for a zone with a fixed offset \<open>tz\<close> (milliseconds east of UTC,
  so local time is \<open>d + tz\<close>), which is a parameter of every function that reads the
  local calendar. Zones that change their offset (daylight saving) and the
  range limit of \<open>Date\<close> (\<open>\<plusminus>8.64e15\<close> ms) are outside the model.
\<close>

definition msPerDay :: int where
  "msPerDay = 86400000"

text \<open>\<open>x.setHours(h, m, s, ms)\<close>: same local day as \<open>d\<close>, the given local time of day.\<close>

definition setHours :: "int \<Rightarrow> int \<Rightarrow> int \<Rightarrow> int \<Rightarrow> int \<Rightarrow> int \<Rightarrow> int" where
  "setHours tz d h m s ms =
     ((d + tz) div msPerDay) * msPerDay + (h * 3600000 + m * 60000 + s * 1000 + ms) - tz"

definition startOfDay :: "int \<Rightarrow> int \<Rightarrow> int" where
  "startOfDay tz d = setHours tz d 0 0 0 0"

definition endOfDay :: "int \<Rightarrow> int \<Rightarrow> int" where
  "endOfDay tz d = setHours tz d 23 59 59 999"

text \<open>\<open>x.setDate(x.getDate() + days)\<close>: the local time of day is kept, so with a fixed
  offset the instant moves by whole days.\<close>

definition addDays :: "int \<Rightarrow> int \<Rightarrow> int" where
  "addDays d days = d + days * msPerDay"

text \<open>Observers of the local calendar, used to state results: the local day number
  and the local time of day of an instant.\<close>

definition localDay :: "int \<Rightarrow> int \<Rightarrow> int" where
  "localDay tz d = (d + tz) div msPerDay"

definition localTimeOfDay :: "int \<Rightarrow> int \<Rightarrow> int" where
  "localTimeOfDay tz d = (d + tz) mod msPerDay"

section \<open>Tasks\<close>

datatype Priority = Low | Medium | High

record subtask =
  s_id :: string
  s_title :: string
  s_done :: bool

text \<open>\<open>type Task\<close>; the optional fields (\<open>notes?\<close>, \<open>due?\<close>, \<open>project?\<close>, \<open>subtasks?\<close>) are options.\<close>

record task =
  t_id :: string
  t_title :: string
  t_notes :: "string option"
  t_createdAt :: int
  t_due :: "int option"
  t_tags :: "string list"
  t_project :: "string option"
  t_priority :: Priority
  t_done :: bool
  t_subtasks :: "subtask list option"

datatype BucketKey = Today | Week | Later | Done

section \<open>Reschedule transitions\<close>




section \<open>Numbers returned by the comparators\<close>

text \<open>
  The comparators subtract values that may be \<open>Infinity\<close>, so their results are JavaScript
  numbers: an integer, \<open>\<plusminus>Infinity\<close> or \<open>NaN\<close> (\<open>Infinity - Infinity\<close>).
\<close>

datatype jsnum = Num int | PosInf | NegInf | NaN

fun js_sub :: "jsnum \<Rightarrow> jsnum \<Rightarrow> jsnum" where
  "js_sub NaN _ = NaN"
| "js_sub _ NaN = NaN"
| "js_sub PosInf PosInf = NaN"
| "js_sub NegInf NegInf = NaN"
| "js_sub PosInf _ = PosInf"
| "js_sub NegInf _ = NegInf"
| "js_sub (Num a) PosInf = NegInf"
| "js_sub (Num a) NegInf = PosInf"
| "js_sub (Num a) (Num b) = Num (a - b)"

text \<open>The sign tests \<open>Array.prototype.sort\<close> makes on a comparator's result; \<open>NaN\<close> counts
  as \<open>+0\<close>.\<close>

fun js_pos :: "jsnum \<Rightarrow> bool" where
  "js_pos (Num n) = (0 < n)"
| "js_pos PosInf = True"
| "js_pos NegInf = False"
| "js_pos NaN = False"

fun js_neg :: "jsnum \<Rightarrow> bool" where
  "js_neg (Num n) = (n < 0)"
| "js_neg PosInf = False"
| "js_neg NegInf = True"
| "js_neg NaN = False"

text \<open>
  \<open>Array.prototype.sort(cmp)\<close> is a stable sort (ECMAScript 2019): \<open>x\<close> is placed after \<open>y\<close>
  only when \<open>cmp(x, y) > 0\<close>. It is modelled as insertion from the right, which keeps
  elements that compare equal in their original order.
\<close>

fun insert_cmp :: "('a \<Rightarrow> 'a \<Rightarrow> jsnum) \<Rightarrow> 'a \<Rightarrow> 'a list \<Rightarrow> 'a list" where
  "insert_cmp cmp x [] = [x]"
| "insert_cmp cmp x (y # ys) =
     (if js_pos (cmp x y) then y # insert_cmp cmp x ys else x # y # ys)"

fun array_sort :: "('a \<Rightarrow> 'a \<Rightarrow> jsnum) \<Rightarrow> 'a list \<Rightarrow> 'a list" where
  "array_sort cmp [] = []"
| "array_sort cmp (x # xs) = insert_cmp cmp x (array_sort cmp xs)"

section \<open>List view ordering\<close>

text \<open>\<open>pRank = { high: 0, medium: 1, low: 2 }\<close>.\<close>

fun pRank :: "Priority \<Rightarrow> int" where
  "pRank High = 0"
| "pRank Medium = 1"
| "pRank Low = 2"

text \<open>\<open>t.due || Infinity\<close>: an absent due and a due of \<open>0\<close> are both falsy.\<close>

fun due_or_inf :: "int option \<Rightarrow> jsnum" where
  "due_or_inf None = PosInf"
| "due_or_inf (Some d) = (if d = 0 then PosInf else Num d)"

text \<open>The comparator passed to \<open>sort\<close> in \<open>visible\<close>.\<close>

definition visible_cmp :: "task \<Rightarrow> task \<Rightarrow> jsnum" where
  "visible_cmp a b =
     (if t_done a \<noteq> t_done b then (if t_done a then Num 1 else Num (- 1))
      else if pRank (t_priority a) \<noteq> pRank (t_priority b)
        then Num (pRank (t_priority a) - pRank (t_priority b))
      else if due_or_inf (t_due a) \<noteq> due_or_inf (t_due b)
        then js_sub (due_or_inf (t_due a)) (due_or_inf (t_due b))
      else Num (t_createdAt a - t_createdAt b))"

definition visible :: "task list \<Rightarrow> task list" where
  "visible filtered = array_sort visible_cmp filtered"

section \<open>Kanban bucketing\<close>

text \<open>
  The \<open>if\<close> chain in the loop of \<open>buckets\<close>, with \<open>todayStart = startOfDay()\<close>,
  \<open>todayEnd = endOfDay()\<close> and \<open>weekEnd = endOfDay(addDays(new Date(), 7))\<close> all taken at
  the same instant \<open>now\<close>. The guard \<open>t.due && ...\<close> is false for an absent due and for a
  due of \<open>0\<close>.
\<close>

definition bucket_of :: "int \<Rightarrow> int \<Rightarrow> task \<Rightarrow> BucketKey" where
  "bucket_of tz now t =
     (let todayStart = startOfDay tz now;
          todayEnd = endOfDay tz now;
          weekEnd = endOfDay tz (addDays now 7)
      in if t_done t then Done
         else (case t_due t of
                 None \<Rightarrow> Later
               | Some d \<Rightarrow>
                   if d \<noteq> 0 \<and> d \<le> todayEnd \<and> d \<ge> todayStart then Today
                   else if d \<noteq> 0 \<and> d > todayEnd \<and> d \<le> weekEnd then Week
                   else Later))"

record board =
  b_today :: "task list"
  b_week :: "task list"
  b_later :: "task list"
  b_done :: "task list"

text \<open>\<open>out[key].push(t)\<close>.\<close>

fun push :: "BucketKey \<Rightarrow> task \<Rightarrow> board \<Rightarrow> board" where
  "push Today t out = out\<lparr>b_today := b_today out @ [t]\<rparr>"
| "push Week t out = out\<lparr>b_week := b_week out @ [t]\<rparr>"
| "push Later t out = out\<lparr>b_later := b_later out @ [t]\<rparr>"
| "push Done t out = out\<lparr>b_done := b_done out @ [t]\<rparr>"

definition byUrgency :: "task \<Rightarrow> task \<Rightarrow> jsnum" where
  "byUrgency a b =
     (if pRank (t_priority a) \<noteq> pRank (t_priority b)
        then Num (pRank (t_priority a) - pRank (t_priority b))
      else js_sub (due_or_inf (t_due a)) (due_or_inf (t_due b)))"

text \<open>The comparator of the \<open>done\<close> column.\<close>

definition done_cmp :: "task \<Rightarrow> task \<Rightarrow> jsnum" where
  "done_cmp a b = js_sub (due_or_inf (t_due a)) (due_or_inf (t_due b))"

definition buckets :: "int \<Rightarrow> int \<Rightarrow> task list \<Rightarrow> board" where
  "buckets tz now filtered =
     (let out = foldl (\<lambda>out t. push (bucket_of tz now t) t out)
                  \<lparr>b_today = [], b_week = [], b_later = [], b_done = []\<rparr> filtered
      in \<lparr>b_today = array_sort byUrgency (b_today out),
          b_week = array_sort byUrgency (b_week out),
          b_later = array_sort byUrgency (b_later out),
          b_done = array_sort done_cmp (b_done out)\<rparr>)"

section \<open>Sort keys used to state the list order\<close>

text \<open>
  The list order is stated through a key that is compared lexicographically:
  completion flag (\<open>False < True\<close>), priority rank, due, creation instant. The due
  component is a pair whose first part says "sorts as \<open>+\<infinity>\<close>".
  \<open>rank_key_spec\<close> follows the wording of the specification (only an absent due is
  \<open>+\<infinity>\<close>); \<open>rank_key\<close> is the key the comparator realises (an absent due and a due of
  \<open>0\<close> are \<open>+\<infinity>\<close>).
\<close>

fun sort_due_spec :: "int option \<Rightarrow> bool \<times> int" where
  "sort_due_spec None = (True, 0)"
| "sort_due_spec (Some d) = (False, d)"

definition rank_key_spec :: "task \<Rightarrow> bool \<times> int \<times> (bool \<times> int) \<times> int" where
  "rank_key_spec t = (t_done t, pRank (t_priority t), sort_due_spec (t_due t), t_createdAt t)"

fun sort_due :: "int option \<Rightarrow> bool \<times> int" where
  "sort_due None = (True, 0)"
| "sort_due (Some d) = (if d = 0 then (True, 0) else (False, d))"

definition rank_key :: "task \<Rightarrow> bool \<times> int \<times> (bool \<times> int) \<times> int" where
  "rank_key t = (t_done t, pRank (t_priority t), sort_due (t_due t), t_createdAt t)"

text \<open>Two sample tasks: one due at the epoch instant, one due five milliseconds later.\<close>

definition epoch_task :: task where
  "epoch_task = \<lparr>t_id = ''a'', t_title = ''Archive'', t_notes = None, t_createdAt = 1,
     t_due = Some 0, t_tags = [], t_project = None, t_priority = Medium, t_done = False,
     t_subtasks = None\<rparr>"

definition later_task :: task where
  "later_task = \<lparr>t_id = ''b'', t_title = ''Backup'', t_notes = None, t_createdAt = 2,
     t_due = Some 5, t_tags = [], t_project = None, t_priority = Medium, t_done = False,
     t_subtasks = None\<rparr>"

section \<open>Characters and strings\<close>

text \<open>
  Text is modelled as \<open>string\<close>, each \<open>char\<close> standing for the code point of the same
  number, so the model covers texts whose code points lie in U+0000..U+00FF. The
  character classes below are the restrictions of the ECMAScript ones to that range.
\<close>

definition code :: "char \<Rightarrow> nat" where
  "code c = of_char c"

text \<open>\<open>String.prototype.toLowerCase\<close>: A-Z, U+00C0..U+00D6 and U+00D8..U+00DE move up by
  32; every other code point of the range is its own lower case.\<close>

definition lower_char :: "char \<Rightarrow> char" where
  "lower_char c =
     (let n = code c in
      if (65 \<le> n \<and> n \<le> 90) \<or> (192 \<le> n \<and> n \<le> 214) \<or> (216 \<le> n \<and> n \<le> 222)
      then char_of (n + 32) else c)"

definition toLowerCase :: "string \<Rightarrow> string" where
  "toLowerCase s = map lower_char s"

section \<open>JSON values and import normalisation\<close>

text \<open>
  The values \<open>JSON.parse\<close> returns, with \<open>Undefined\<close> added for the result of reading a
  missing property. Numbers are restricted to integers (epoch milliseconds); an object
  is the list of its own properties, with distinct keys. TypeScript types are erased at
  run time, so the fields of an imported record hold arbitrary values of this type.
\<close>

datatype jsval =
    Undefined
  | Null
  | JBool bool
  | JNum int
  | JStr string
  | JArr "jsval list"
  | JObj "(string \<times> jsval) list"

fun truthy :: "jsval \<Rightarrow> bool" where
  "truthy Undefined = False"
| "truthy Null = False"
| "truthy (JBool b) = b"
| "truthy (JNum n) = (n \<noteq> 0)"
| "truthy (JStr s) = (s \<noteq> [])"
| "truthy (JArr xs) = True"
| "truthy (JObj kvs) = True"

text \<open>\<open>a || b\<close>.\<close>

definition js_or :: "jsval \<Rightarrow> jsval \<Rightarrow> jsval" where
  "js_or a b = (if truthy a then a else b)"

text \<open>\<open>t.k\<close> for a value \<open>t\<close> other than \<open>null\<close>, and a key \<open>k\<close> of the task record (none of
  which is a property of a string, number, boolean or array).\<close>

fun get_prop :: "jsval \<Rightarrow> string \<Rightarrow> jsval" where
  "get_prop (JObj kvs) k = (case map_of kvs k of None \<Rightarrow> Undefined | Some v \<Rightarrow> v)"
| "get_prop _ k = Undefined"

fun isArray :: "jsval \<Rightarrow> bool" where
  "isArray (JArr xs) = True"
| "isArray _ = False"

text \<open>A stored task as the JavaScript object it is.\<close>

record jtask =
  j_id :: jsval
  j_title :: jsval
  j_notes :: jsval
  j_createdAt :: jsval
  j_due :: jsval
  j_tags :: jsval
  j_project :: jsval
  j_priority :: jsval
  j_done :: jsval
  j_subtasks :: jsval

text \<open>
  The callback of \<open>parsed.map\<close> in \<open>importJSON\<close>. \<open>fresh\<close> is what \<open>uid()\<close> returns and \<open>now\<close>
  what \<open>Date.now()\<close> returns, should the record need them. Reading a property of \<open>null\<close>
  (or of \<open>undefined\<close>, which no parsed array holds) throws a \<open>TypeError\<close>, whose message
  (engine specific) is the error value.
\<close>

definition normalize_record :: "string \<Rightarrow> int \<Rightarrow> jsval \<Rightarrow> string + jtask" where
  "normalize_record fresh now t =
     (if t = Null \<or> t = Undefined then Inl ''Cannot read properties of null''
      else Inr \<lparr>
        j_id = js_or (get_prop t ''id'') (JStr fresh),
        j_title = js_or (get_prop t ''title'') (JStr ''Untitled''),
        j_notes = js_or (get_prop t ''notes'') (JStr ''''),
        j_createdAt = js_or (get_prop t ''createdAt'') (JNum now),
        j_due = js_or (get_prop t ''due'') Undefined,
        j_tags = (if isArray (get_prop t ''tags'') then get_prop t ''tags'' else JArr []),
        j_project = js_or (get_prop t ''project'') Undefined,
        j_priority = js_or (get_prop t ''priority'') (JStr ''medium''),
        j_done = JBool (truthy (get_prop t ''done'')),
        j_subtasks = (if isArray (get_prop t ''subtasks'') then get_prop t ''subtasks'' else JArr [])\<rparr>)"

text \<open>\<open>parsed.map(...)\<close>: the records are normalised in order; the \<open>i\<close>-th record draws its
  fresh id and clock reading from \<open>uid i\<close> and \<open>clock i\<close>. The first exception aborts the
  whole map.\<close>

fun normalize_all :: "(nat \<Rightarrow> string) \<Rightarrow> (nat \<Rightarrow> int) \<Rightarrow> nat \<Rightarrow> jsval list \<Rightarrow> string + jtask list" where
  "normalize_all uid clock i [] = Inr []"
| "normalize_all uid clock i (t # ts) =
     (case normalize_record (uid i) (clock i) t of
        Inl e \<Rightarrow> Inl e
      | Inr x \<Rightarrow>
          (case normalize_all uid clock (Suc i) ts of
             Inl e \<Rightarrow> Inl e
           | Inr xs \<Rightarrow> Inr (x # xs)))"

text \<open>
  The \<open>try\<close> block of \<open>importJSON\<close>. \<open>JSON.parse(jsonText)\<close> is given by its outcome: \<open>Inl\<close>
  the message of the \<open>SyntaxError\<close> it throws, or \<open>Inr\<close> the value it returns. The block
  yields \<open>Inl\<close> the message of the exception thrown, or \<open>Inr\<close> the list passed to
  \<open>setTasks\<close>.
\<close>

definition import_try :: "(nat \<Rightarrow> string) \<Rightarrow> (nat \<Rightarrow> int) \<Rightarrow> string + jsval \<Rightarrow> string + jtask list" where
  "import_try uid clock parsed =
     (case parsed of
        Inl e \<Rightarrow> Inl e
      | Inr v \<Rightarrow>
          (case v of
             JArr ts \<Rightarrow> normalize_all uid clock 0 ts
           | _ \<Rightarrow> Inl ''Invalid format''))"

text \<open>The task collection together with the messages shown to the user by \<open>alert\<close>.\<close>

record app =
  tasks :: "jtask list"
  alerts :: "string list"

definition importJSON :: "(nat \<Rightarrow> string) \<Rightarrow> (nat \<Rightarrow> int) \<Rightarrow> string + jsval \<Rightarrow> app \<Rightarrow> app" where
  "importJSON uid clock parsed st =
     (case import_try uid clock parsed of
        Inr cleaned \<Rightarrow> st\<lparr>tasks := cleaned\<rparr>
      | Inl msg \<Rightarrow> st\<lparr>alerts := alerts st @ [''Couldn't import: '' @ msg]\<rparr>)"

section \<open>Export\<close>

text \<open>
  \<open>JSON.stringify(tasks, null, 2)\<close> writes each task as an object holding the properties
  that are not \<open>undefined\<close>; parsing the text it produces gives back the value denoted
  here, which is what a re-import of the exported file starts from.
\<close>

fun priority_name :: "Priority \<Rightarrow> string" where
  "priority_name Low = ''low''"
| "priority_name Medium = ''medium''"
| "priority_name High = ''high''"

definition subtask_json :: "subtask \<Rightarrow> jsval" where
  "subtask_json s =
     JObj [(''id'', JStr (s_id s)), (''title'', JStr (s_title s)), (''done'', JBool (s_done s))]"

fun opt_prop :: "string \<Rightarrow> jsval option \<Rightarrow> (string \<times> jsval) list" where
  "opt_prop k None = []"
| "opt_prop k (Some v) = [(k, v)]"

definition task_json :: "task \<Rightarrow> jsval" where
  "task_json t =
     JObj ([(''id'', JStr (t_id t)), (''title'', JStr (t_title t))]
           @ opt_prop ''notes'' (map_option JStr (t_notes t))
           @ [(''createdAt'', JNum (t_createdAt t))]
           @ opt_prop ''due'' (map_option JNum (t_due t))
           @ [(''tags'', JArr (map JStr (t_tags t)))]
           @ opt_prop ''project'' (map_option JStr (t_project t))
           @ [(''priority'', JStr (priority_name (t_priority t))),
              (''done'', JBool (t_done t))]
           @ opt_prop ''subtasks'' (map_option (\<lambda>ss. JArr (map subtask_json ss)) (t_subtasks t)))"

definition export_value :: "task list \<Rightarrow> jsval" where
  "export_value ts = JArr (map task_json ts)"

text \<open>A task of the typed collection as the JavaScript object held in memory.\<close>

fun opt_js :: "jsval option \<Rightarrow> jsval" where
  "opt_js None = Undefined"
| "opt_js (Some v) = v"

definition js_of_task :: "task \<Rightarrow> jtask" where
  "js_of_task t =
     \<lparr>j_id = JStr (t_id t),
      j_title = JStr (t_title t),
      j_notes = opt_js (map_option JStr (t_notes t)),
      j_createdAt = JNum (t_createdAt t),
      j_due = opt_js (map_option JNum (t_due t)),
      j_tags = JArr (map JStr (t_tags t)),
      j_project = opt_js (map_option JStr (t_project t)),
      j_priority = JStr (priority_name (t_priority t)),
      j_done = JBool (t_done t),
      j_subtasks = opt_js (map_option (\<lambda>ss. JArr (map subtask_json ss)) (t_subtasks t))\<rparr>"

text \<open>
  Conformance of a typed task to the persisted schema as the specification words it:
  the keys that are not marked "or absent" (\<open>notes\<close> and \<open>subtasks\<close> among them) are present,
  and the tags are lower case. The types of the values are those of the record.
\<close>

definition schema_ok :: "task \<Rightarrow> bool" where
  "schema_ok t \<longleftrightarrow>
     t_notes t \<noteq> None \<and> t_subtasks t \<noteq> None \<and> list_all (\<lambda>g. toLowerCase g = g) (t_tags t)"

text \<open>What the round trip needs on top of the schema: no value that normalisation
  takes for missing.\<close>

definition no_falsy_fields :: "task \<Rightarrow> bool" where
  "no_falsy_fields t \<longleftrightarrow>
     t_id t \<noteq> [] \<and> t_title t \<noteq> [] \<and> t_createdAt t \<noteq> 0 \<and> t_due t \<noteq> Some 0 \<and>
     t_project t \<noteq> Some []"






text \<open>Sample inputs.\<close>

definition uid0 :: "nat \<Rightarrow> string" where
  "uid0 i = ''k3x9q2''"

definition clock0 :: "nat \<Rightarrow> int" where
  "clock0 i = 1700000000000"

definition app0 :: app where
  "app0 = \<lparr>tasks = [js_of_task later_task], alerts = []\<rparr>"

definition project_task :: task where
  "project_task = \<lparr>t_id = ''c'', t_title = ''Fix bug'', t_notes = Some '''', t_createdAt = 3,
     t_due = None, t_tags = [''proj:''], t_project = Some '''', t_priority = Medium,
     t_done = False, t_subtasks = Some []\<rparr>"

definition clean_task :: task where
  "clean_task = \<lparr>t_id = ''d'', t_title = ''Email Alex'', t_notes = Some '''', t_createdAt = 4,
     t_due = Some 1700000000000, t_tags = [''work''], t_project = None, t_priority = High,
     t_done = False,
     t_subtasks = Some [\<lparr>s_id = ''s1'', s_title = ''Draft'', s_done = True\<rparr>]\<rparr>"





section \<open>Character classes of the regular expressions\<close>

text \<open>\<open>\s\<close> (white space and line terminators), which is also what \<open>trim\<close> strips.\<close>

definition is_space :: "char \<Rightarrow> bool" where
  "is_space c = (code c \<in> {9, 10, 11, 12, 13, 32, 160})"

text \<open>\<open>\p{L}\<close>: A-Z, a-z, U+00AA, U+00B5, U+00BA, U+00C0..U+00D6, U+00D8..U+00F6,
  U+00F8..U+00FF.\<close>

definition is_letter :: "char \<Rightarrow> bool" where
  "is_letter c =
     (let n = code c in
      (65 \<le> n \<and> n \<le> 90) \<or> (97 \<le> n \<and> n \<le> 122) \<or> n = 170 \<or> n = 181 \<or> n = 186 \<or>
      (192 \<le> n \<and> n \<le> 214) \<or> (216 \<le> n \<and> n \<le> 246) \<or> (248 \<le> n \<and> n \<le> 255))"

text \<open>\<open>\p{N}\<close>: 0-9, U+00B2, U+00B3, U+00B9, U+00BC..U+00BE.\<close>

definition is_number :: "char \<Rightarrow> bool" where
  "is_number c =
     (let n = code c in
      (48 \<le> n \<and> n \<le> 57) \<or> n = 178 \<or> n = 179 \<or> n = 185 \<or> (188 \<le> n \<and> n \<le> 190))"

text \<open>The class \<open>[\p{L}\p{N}_:-]\<close> of the tag pattern.\<close>

definition is_tag_char :: "char \<Rightarrow> bool" where
  "is_tag_char c =
     (is_letter c \<or> is_number c \<or> c = CHR ''_'' \<or> c = CHR '':'' \<or> c = CHR ''-'')"

text \<open>\<open>\w\<close>, which decides the word boundaries \<open>\b\<close>: A-Z, a-z, 0-9 and the underscore.\<close>

definition is_word_char :: "char \<Rightarrow> bool" where
  "is_word_char c =
     (let n = code c in
      (65 \<le> n \<and> n \<le> 90) \<or> (97 \<le> n \<and> n \<le> 122) \<or> (48 \<le> n \<and> n \<le> 57) \<or> n = 95)"

text \<open>
  Case-insensitive matching (flag \<open>i\<close> without \<open>u\<close>) compares canonicalised characters.
  The marker pattern consists of ASCII letters, and within the range a character
  canonicalises to an ASCII letter exactly when it is that letter in either case, so
  comparing the ASCII upper cases decides the match.
\<close>

definition ascii_upper :: "char \<Rightarrow> char" where
  "ascii_upper c = (let n = code c in if 97 \<le> n \<and> n \<le> 122 then char_of (n - 32) else c)"

fun ci_prefix :: "string \<Rightarrow> string \<Rightarrow> bool" where
  "ci_prefix [] s = True"
| "ci_prefix (p # ps) [] = False"
| "ci_prefix (p # ps) (c # cs) = (ascii_upper c = ascii_upper p \<and> ci_prefix ps cs)"

section \<open>Token extraction\<close>

text \<open>
  \<open>text.matchAll(/#([\p{L}\p{N}_:-]+)/gu)\<close> mapped to its group 1: the scan goes left to
  right; at a \<open>#\<close> followed by at least one tag character the greedy run is captured and
  the scan resumes after it.
\<close>

function tag_matches :: "string \<Rightarrow> string list" where
  "tag_matches [] = []"
| "tag_matches (c # cs) =
     (if c = CHR ''#'' \<and> takeWhile is_tag_char cs \<noteq> []
      then takeWhile is_tag_char cs # tag_matches (dropWhile is_tag_char cs)
      else tag_matches cs)"
  by pat_completeness auto
termination
  by (relation "measure length") (auto simp: length_dropWhile_le less_Suc_eq_le)

text \<open>\<open>.replace(/#([\p{L}\p{N}_:-]+)/gu, "")\<close>.\<close>

function strip_tags :: "string \<Rightarrow> string" where
  "strip_tags [] = []"
| "strip_tags (c # cs) =
     (if c = CHR ''#'' \<and> takeWhile is_tag_char cs \<noteq> []
      then strip_tags (dropWhile is_tag_char cs)
      else c # strip_tags cs)"
  by pat_completeness auto
termination
  by (relation "measure length") (auto simp: length_dropWhile_le less_Suc_eq_le)

text \<open>\<open>Array.from(new Set(xs))\<close>: the first occurrence of each element, in order.\<close>

definition set_add :: "'a list \<Rightarrow> 'a \<Rightarrow> 'a list" where
  "set_add seen x = (if x \<in> set seen then seen else seen @ [x])"

definition uniq :: "'a list \<Rightarrow> 'a list" where
  "uniq xs = foldl set_add [] xs"

text \<open>
  A match of \<open>/!(high|med(?:ium)?|low)/i\<close> at the start of the text: its group 1. The
  alternatives are tried in the order written, and \<open>(?:ium)?\<close> is greedy.
\<close>

fun marker_at :: "string \<Rightarrow> string option" where
  "marker_at [] = None"
| "marker_at (c # cs) =
     (if c \<noteq> CHR ''!'' then None
      else if ci_prefix ''high'' cs then Some (take 4 cs)
      else if ci_prefix ''med'' cs then
        (if ci_prefix ''ium'' (drop 3 cs) then Some (take 6 cs) else Some (take 3 cs))
      else if ci_prefix ''low'' cs then Some (take 3 cs)
      else None)"

text \<open>\<open>text.match(/!(high|med(?:ium)?|low)/i)\<close>: group 1 of the leftmost match.\<close>

fun first_marker :: "string \<Rightarrow> string option" where
  "first_marker [] = None"
| "first_marker (c # cs) =
     (case marker_at (c # cs) of Some g \<Rightarrow> Some g | None \<Rightarrow> first_marker cs)"

text \<open>\<open>.replace(/!(high|med(?:ium)?|low)/gi, "")\<close>.\<close>

function strip_markers :: "string \<Rightarrow> string" where
  "strip_markers [] = []"
| "strip_markers (c # cs) =
     (case marker_at (c # cs) of
        Some g \<Rightarrow> strip_markers (drop (length g) cs)
      | None \<Rightarrow> c # strip_markers cs)"
  by pat_completeness auto
termination
  by (relation "measure length") auto

text \<open>\<open>.replace(/\s{2,}/g, " ")\<close>: a run of two or more white-space characters becomes one
  space; a single white-space character stays as it is.\<close>

function collapse_ws :: "string \<Rightarrow> string" where
  "collapse_ws [] = []"
| "collapse_ws [c] = [c]"
| "collapse_ws (c # d # cs) =
     (if is_space c \<and> is_space d
      then CHR '' '' # collapse_ws (dropWhile is_space cs)
      else c # collapse_ws (d # cs))"
  by pat_completeness auto
termination
  by (relation "measure length") (auto simp: length_dropWhile_le le_SucI less_Suc_eq_le)

definition trim :: "string \<Rightarrow> string" where
  "trim s = rev (dropWhile is_space (rev (dropWhile is_space s)))"

definition startsWith :: "string \<Rightarrow> string \<Rightarrow> bool" where
  "startsWith s p = (take (length p) s = p)"

record tokens =
  tok_cleaned :: string
  tok_tags :: "string list"
  tok_priority :: "Priority option"

definition extractTokens :: "string \<Rightarrow> tokens" where
  "extractTokens text =
     (let tags = uniq (map toLowerCase (tag_matches text));
          prMatch = first_marker text;
          priority =
            (case prMatch of
               None \<Rightarrow> None
             | Some g \<Rightarrow>
                 (let p = toLowerCase g
                  in Some (if startsWith p ''high'' then High
                           else if startsWith p ''low'' then Low else Medium)));
          cleaned = trim (collapse_ws (strip_markers (strip_tags text)))
      in \<lparr>tok_cleaned = cleaned, tok_tags = tags, tok_priority = priority\<rparr>)"

section \<open>Priority inference\<close>

text \<open>\<open>/w/.test(t)\<close> for a literal \<open>w\<close>: \<open>w\<close> occurs in \<open>t\<close>.\<close>

fun contains :: "string \<Rightarrow> string \<Rightarrow> bool" where
  "contains w [] = (w = [])"
| "contains w (c # cs) = (startsWith (c # cs) w \<or> contains w cs)"

text \<open>
  \<open>/\bw\b/.test(t)\<close> for a literal \<open>w\<close> that begins and ends with a word character: \<open>w\<close>
  occurs at a position that is not preceded and not followed by a word character.
  \<open>prev\<close> tells whether the character before the current position is a word character.
\<close>

fun word_from :: "string \<Rightarrow> bool \<Rightarrow> string \<Rightarrow> bool" where
  "word_from w prev [] = False"
| "word_from w prev (c # cs) =
     ((\<not> prev \<and> startsWith (c # cs) w \<and>
       (case drop (length w) (c # cs) of [] \<Rightarrow> True | d # _ \<Rightarrow> \<not> is_word_char d))
      \<or> word_from w (is_word_char c) cs)"

definition has_word :: "string \<Rightarrow> string \<Rightarrow> bool" where
  "has_word w t = word_from w False t"

text \<open>\<open>/\b(urgent|asap|critical|today)\b/\<close> and \<open>/\b(review|plan|someday)\b/\<close>.\<close>

definition urgency_keyword :: "string \<Rightarrow> bool" where
  "urgency_keyword t \<longleftrightarrow>
     has_word ''urgent'' t \<or> has_word ''asap'' t \<or> has_word ''critical'' t \<or> has_word ''today'' t"

definition planning_keyword :: "string \<Rightarrow> bool" where
  "planning_keyword t \<longleftrightarrow>
     has_word ''review'' t \<or> has_word ''plan'' t \<or> has_word ''someday'' t"

text \<open>
  The block \<open>if (due) { ... }\<close> of \<open>inferPriority\<close>: the priority it returns, if it returns.
  An absent due and a due of \<open>0\<close> are falsy. \<open>now\<close> is the value of \<open>Date.now()\<close>; \<open>hours <=
  24\<close>, with \<open>hours = (due - now) / 36e5\<close>, holds for integer instants exactly when \<open>due -
  now \<le> 24 * 3600000\<close>.
\<close>

definition due_rule :: "int \<Rightarrow> int option \<Rightarrow> Priority option" where
  "due_rule now due =
     (case due of
        None \<Rightarrow> None
      | Some d \<Rightarrow>
          if d = 0 then None
          else if d - now \<le> 24 * 3600000 then Some High
          else if d - now \<le> 72 * 3600000 then Some Medium
          else None)"

definition inferPriority :: "int \<Rightarrow> string \<Rightarrow> int option \<Rightarrow> Priority" where
  "inferPriority now text due =
     (let t = toLowerCase text in
      if contains ''!high'' t \<or> contains ''!important'' t \<or> contains ''!urgent'' t \<or>
         urgency_keyword t then High
      else if contains ''!med'' t \<or> contains ''!medium'' t then Medium
      else if contains ''!low'' t then Low
      else (case due_rule now due of
              Some p \<Rightarrow> p
            | None \<Rightarrow> if planning_keyword t then Low else Medium))"

section \<open>Ingestion\<close>

text \<open>
  The date resolver (\<open>chrono.parse(cleaned, new Date(), { forwardDate: true })\<close>) is an
  external library: it is a parameter, a function from the text and the reference
  instant to the list of matches. Of a match the pipeline reads \<open>index\<close>, \<open>text\<close> (both
  guarded by \<open>??\<close>, hence optional) and \<open>date().getTime()\<close>.
\<close>

record parsed_result =
  pr_index :: "nat option"
  pr_text :: "string option"
  pr_date :: int

type_synonym resolver = "string \<Rightarrow> int \<Rightarrow> parsed_result list"

text \<open>The \<open>Partial<Task>\<close> returned by \<open>parseTask\<close>.\<close>

record draft =
  d_title :: string
  d_due :: "int option"
  d_tags :: "string list"
  d_priority :: Priority

definition parseTask :: "resolver \<Rightarrow> int \<Rightarrow> string \<Rightarrow> draft" where
  "parseTask chrono now input =
     (let tk = extractTokens input;
          cleaned = tok_cleaned tk;
          parsed = chrono cleaned now;
          due = (case parsed of [] \<Rightarrow> None | first # _ \<Rightarrow> Some (pr_date first));
          title =
            (case parsed of
               [] \<Rightarrow> cleaned
             | first # _ \<Rightarrow>
                 (let start = (case pr_index first of None \<Rightarrow> 0 | Some i \<Rightarrow> i);
                      end = (case pr_index first of None \<Rightarrow> 0 | Some i \<Rightarrow> i)
                            + (case pr_text first of None \<Rightarrow> 0 | Some s \<Rightarrow> length s)
                  in trim (collapse_ws (take start cleaned @ '' '' @ drop end cleaned))));
          inferred = inferPriority now cleaned due
      in \<lparr>d_title = (if title \<noteq> [] then title else cleaned),
          d_due = due,
          d_tags = tok_tags tk,
          d_priority = (case tok_priority tk of Some p \<Rightarrow> p | None \<Rightarrow> inferred)\<rparr>)"

text \<open>A resolver that finds no date.\<close>

definition no_dates :: resolver where
  "no_dates s now = []"

text \<open>A resolver that finds "tomorrow 3pm" where the cleaned text of the worked example
  has it, and resolves it in the zone \<open>tz\<close>.\<close>

definition tomorrow_3pm :: "int \<Rightarrow> resolver" where
  "tomorrow_3pm tz s now =
     [\<lparr>pr_index = Some 11, pr_text = Some ''tomorrow 3pm'',
       pr_date = setHours tz (addDays now 1) 15 0 0 0\<rparr>]"

text \<open>
  The inference rules in the wording of the specification: five rules, first match
  wins, a due counting as set whenever it is present.
\<close>

definition infer_spec :: "int \<Rightarrow> string \<Rightarrow> int option \<Rightarrow> Priority" where
  "infer_spec now text due =
     (let t = toLowerCase text in
      if urgency_keyword t then High
      else (case due of
              None \<Rightarrow> if planning_keyword t then Low else Medium
            | Some d \<Rightarrow>
                if d - now \<le> 24 * 3600000 then High
                else if d - now \<le> 72 * 3600000 then Medium
                else if planning_keyword t then Low
                else Medium))"

text \<open>The \<open>!\<close> markers that \<open>inferPriority\<close> itself reacts to.\<close>

definition bang_marker :: "string \<Rightarrow> bool" where
  "bang_marker t \<longleftrightarrow>
     contains ''!high'' t \<or> contains ''!important'' t \<or> contains ''!urgent'' t \<or>
     contains ''!med'' t \<or> contains ''!medium'' t \<or> contains ''!low'' t"

section \<open>Occurrences of tags and markers\<close>



text \<open>A priority marker starts somewhere in the text.\<close>

fun has_marker :: "string \<Rightarrow> bool" where
  "has_marker [] = False"
| "has_marker (c # cs) = (marker_at (c # cs) \<noteq> None \<or> has_marker cs)"


text \<open>The ASCII letters, the only characters a letter of the marker pattern matches.\<close>

definition is_alpha :: "char \<Rightarrow> bool" where
  "is_alpha c = (let n = code c in (65 \<le> n \<and> n \<le> 90) \<or> (97 \<le> n \<and> n \<le> 122))"


section \<open>Properties of the reschedule transitions\<close>

lemma localDay_setHours:
  assumes "0 \<le> x" "x < msPerDay"
  shows "localDay tz (((d + tz) div msPerDay) * msPerDay + x - tz) = localDay tz d"
proof -
  have "(((d + tz) div msPerDay) * msPerDay + x) div msPerDay = (d + tz) div msPerDay"
    using assms by (simp add: msPerDay_def)
  then show ?thesis by (simp add: localDay_def)
qed

lemma localTimeOfDay_setHours:
  assumes "0 \<le> x" "x < msPerDay"
  shows "localTimeOfDay tz (((d + tz) div msPerDay) * msPerDay + x - tz) = x"
  using assms by (simp add: localTimeOfDay_def msPerDay_def)

lemma localDay_addDays: "localDay tz (addDays d n) = localDay tz d + n"
proof -
  have "(d + n * msPerDay + tz) div msPerDay = (d + tz) div msPerDay + n"
    by (simp add: msPerDay_def add.commute add.left_commute)
  then show ?thesis by (simp add: localDay_def addDays_def)
qed


section \<open>Properties of the list order\<close>

lemma due_or_inf_eq_iff: "due_or_inf x = due_or_inf y \<longleftrightarrow> sort_due x = sort_due y"
  by (cases x; cases y) auto

lemma js_pos_due: "js_pos (js_sub (due_or_inf x) (due_or_inf y)) \<longleftrightarrow> sort_due y < sort_due x"
  by (cases x; cases y) auto

lemma js_neg_due: "js_neg (js_sub (due_or_inf x) (due_or_inf y)) \<longleftrightarrow> sort_due x < sort_due y"
  by (cases x; cases y) auto

lemma visible_cmp_pos: "js_pos (visible_cmp a b) \<longleftrightarrow> rank_key b < rank_key a"
  unfolding visible_cmp_def rank_key_def
  by (auto simp: due_or_inf_eq_iff js_pos_due)

lemma visible_cmp_neg: "js_neg (visible_cmp a b) \<longleftrightarrow> rank_key a < rank_key b"
  unfolding visible_cmp_def rank_key_def
  by (auto simp: due_or_inf_eq_iff js_neg_due)

lemma insert_cmp_insort: "insert_cmp visible_cmp x ys = insort_key rank_key x ys"
  by (induction ys) (auto simp: visible_cmp_pos)

lemma visible_sort_key: "visible ts = sort_key rank_key ts"
  unfolding visible_def by (induction ts) (simp_all add: insert_cmp_insort)

lemma rank_key_done: "rank_key a = rank_key b \<Longrightarrow> t_done a = t_done b"
  by (simp add: rank_key_def)

lemma rank_key_done_le: "\<not> t_done a \<Longrightarrow> t_done b \<Longrightarrow> rank_key a \<le> rank_key b"
  by (simp add: rank_key_def)

lemma filter_key_done:
  "filter (\<lambda>x. rank_key k = rank_key x) (filter t_done xs) =
     (if t_done k then filter (\<lambda>x. rank_key k = rank_key x) xs else [])"
  by (induction xs) (auto dest: rank_key_done)

lemma filter_key_open:
  "filter (\<lambda>x. rank_key k = rank_key x) (filter (\<lambda>t. \<not> t_done t) xs) =
     (if t_done k then [] else filter (\<lambda>x. rank_key k = rank_key x) xs)"
  by (induction xs) (auto dest: rank_key_done)

lemma filter_key_sort:
  "filter (\<lambda>x. rank_key k = rank_key x) (sort_key rank_key xs) =
   filter (\<lambda>x. rank_key k = rank_key x) xs"
  using sort_key_stable [of rank_key "rank_key k" xs] by (simp add: eq_commute)

text \<open>The sorted list is the sorted open tasks followed by the sorted completed tasks.\<close>

lemma visible_done_last:
  "visible ts = visible (filter (\<lambda>t. \<not> t_done t) ts) @ visible (filter t_done ts)"
proof -
  let ?A = "sort_key rank_key (filter (\<lambda>t. \<not> t_done t) ts)"
  let ?B = "sort_key rank_key (filter t_done ts)"
  have m: "mset (?A @ ?B) = mset ts"
    by (simp add: union_commute)
  have s: "sorted (map rank_key (?A @ ?B))"
    by (auto simp: sorted_append intro: rank_key_done_le)
  have f: "filter (\<lambda>x. rank_key k = rank_key x) (?A @ ?B) =
           filter (\<lambda>x. rank_key k = rank_key x) ts" for k
    by (cases "t_done k")
       (simp_all only: filter_append filter_key_sort filter_key_done filter_key_open
          if_True if_False append_Nil append_Nil2)
  have "sort_key rank_key ts = ?A @ ?B"
    by (rule properties_for_sort_key [OF m f s])
  then show ?thesis by (simp add: visible_sort_key)
qed

text \<open>
  Claim C3, as stated, fails: with the specification's key (only an absent due is \<open>+\<infinity>\<close>)
  the task due at the epoch instant \<open>0\<close> precedes the task due at \<open>5\<close>, both open and of
  equal priority, yet the list view puts it last.
\<close>

theorem visible_order_counterexample:
  "visible [epoch_task, later_task] = [later_task, epoch_task] \<and>
   rank_key_spec epoch_task < rank_key_spec later_task \<and>
   \<not> sorted (map rank_key_spec (visible [epoch_task, later_task]))"
  by (simp add: visible_def visible_cmp_def rank_key_spec_def epoch_task_def later_task_def)

text \<open>
  Claim C3, amended. For every task collection the list-view comparator orders tasks
  lexicographically by (1) open before completed, (2) priority rank high(0) < medium(1)
  < low(2), (3) due ascending with an absent due or a due of 0 treated as \<open>+\<infinity>\<close>,
  (4) createdAt ascending: it is negative (positive) exactly when the first task's key is
  smaller (greater). The sorted list is a permutation of the input, ascending in that
  key, keeps tasks of equal key in their input order (stable, hence deterministic), and
  consists of the open tasks followed by the completed ones.
\<close>

theorem visible_order:
  "(js_neg (visible_cmp a b) \<longleftrightarrow> rank_key a < rank_key b) \<and>
   (js_pos (visible_cmp a b) \<longleftrightarrow> rank_key b < rank_key a) \<and>
   mset (visible ts) = mset ts \<and>
   sorted (map rank_key (visible ts)) \<and>
   filter (\<lambda>t. rank_key t = k) (visible ts) = filter (\<lambda>t. rank_key t = k) ts \<and>
   visible ts = visible (filter (\<lambda>t. \<not> t_done t) ts) @ visible (filter t_done ts)"
proof -
  have "filter (\<lambda>t. rank_key t = k) (visible ts) = filter (\<lambda>t. rank_key t = k) ts"
    by (simp add: visible_sort_key sort_key_stable)
  moreover have "sorted (map rank_key (visible ts))"
    by (simp add: visible_sort_key)
  moreover have "mset (visible ts) = mset ts"
    by (simp add: visible_sort_key)
  ultimately show ?thesis
    using visible_cmp_neg [of a b] visible_cmp_pos [of a b] visible_done_last [of ts]
    by blast
qed

theorem visible_order_witness:
  "visible [later_task\<lparr>t_done := True\<rparr>, epoch_task, later_task] =
     [later_task, epoch_task, later_task\<lparr>t_done := True\<rparr>] \<and>
   sorted (map rank_key (visible [later_task\<lparr>t_done := True\<rparr>, epoch_task, later_task]))"
  using visible_order [of epoch_task later_task
      "[later_task\<lparr>t_done := True\<rparr>, epoch_task, later_task]"]
  by (simp add: visible_def visible_cmp_def epoch_task_def later_task_def)

section \<open>Properties of the bucketing\<close>



lemma weekEnd_eq: "endOfDay tz (addDays now 7) = endOfDay tz now + 7 * msPerDay"
proof -
  have "(now + 7 * msPerDay + tz) div msPerDay = (now + tz) div msPerDay + 7"
    by (simp add: msPerDay_def add.commute add.left_commute)
  then show ?thesis
    by (simp add: endOfDay_def setHours_def addDays_def algebra_simps)
qed

lemma foldl_push:
  "foldl (\<lambda>out t. push (f t) t out) acc ts =
     \<lparr>b_today = b_today acc @ filter (\<lambda>t. f t = Today) ts,
      b_week = b_week acc @ filter (\<lambda>t. f t = Week) ts,
      b_later = b_later acc @ filter (\<lambda>t. f t = Later) ts,
      b_done = b_done acc @ filter (\<lambda>t. f t = Done) ts\<rparr>"
proof (induction ts arbitrary: acc)
  case Nil
  then show ?case by simp
next
  case (Cons t ts)
  show ?case by (cases "f t") (simp_all add: Cons.IH)
qed

lemma buckets_columns:
  "buckets tz now ts =
     \<lparr>b_today = array_sort byUrgency (filter (\<lambda>t. bucket_of tz now t = Today) ts),
      b_week = array_sort byUrgency (filter (\<lambda>t. bucket_of tz now t = Week) ts),
      b_later = array_sort byUrgency (filter (\<lambda>t. bucket_of tz now t = Later) ts),
      b_done = array_sort done_cmp (filter (\<lambda>t. bucket_of tz now t = Done) ts)\<rparr>"
  by (simp add: buckets_def foldl_push Let_def)


text \<open>The instant one millisecond after \<open>todayEnd\<close> always lies within the week.\<close>

lemma next_ms_in_week: "endOfDay tz now + 1 \<le> endOfDay tz (addDays now 7)"
  by (simp add: weekEnd_eq msPerDay_def)




section \<open>Properties of import and export\<close>

lemma import_not_array:
  "\<not> isArray v \<Longrightarrow> import_try uid clock (Inr v) = Inl ''Invalid format''"
  by (cases v) (simp_all add: import_try_def)

text \<open>Whatever the \<open>try\<close> block throws, a syntax error of \<open>JSON.parse\<close> and a \<open>null\<close> record
  included, the collection is left as it was and one message is shown.\<close>

lemma importJSON_failure:
  "import_try uid clock parsed = Inl e \<Longrightarrow>
   importJSON uid clock parsed st = st\<lparr>alerts := alerts st @ [''Couldn't import: '' @ e]\<rparr>"
  by (simp add: importJSON_def)

lemma importJSON_syntax_error:
  "importJSON uid clock (Inl e) st = st\<lparr>alerts := alerts st @ [''Couldn't import: '' @ e]\<rparr>"
  by (simp add: importJSON_def import_try_def)

text \<open>
  Claim C6. For every import whose top-level JSON value is not an array, \<open>importJSON\<close>
  reports the error to the user (one \<open>alert\<close> with the message "Invalid format") and
  leaves the task collection unchanged; the exception is caught, so the function
  returns normally.
\<close>

theorem importJSON_rejects_non_array:
  assumes "\<not> isArray v"
  shows "importJSON uid clock (Inr v) st =
           st\<lparr>alerts := alerts st @ [''Couldn't import: Invalid format'']\<rparr> \<and>
         tasks (importJSON uid clock (Inr v) st) = tasks st"
  using import_not_array [OF assms, of uid clock] by (simp add: importJSON_def)

theorem importJSON_rejects_non_array_witness:
  "\<not> isArray (JObj [(''id'', JStr ''x'')]) \<and>
   importJSON uid0 clock0 (Inr (JObj [(''id'', JStr ''x'')])) app0 =
     \<lparr>tasks = [js_of_task later_task], alerts = [''Couldn't import: Invalid format'']\<rparr>"
proof -
  have h: "\<not> isArray (JObj [(''id'', JStr ''x'')])" by simp
  show ?thesis
    using importJSON_rejects_non_array [OF h, of uid0 clock0 app0]
    by (simp add: app0_def)
qed

lemma get_prop_task_json:
  "get_prop (task_json t) ''id'' = JStr (t_id t)"
  "get_prop (task_json t) ''title'' = JStr (t_title t)"
  "get_prop (task_json t) ''notes'' = opt_js (map_option JStr (t_notes t))"
  "get_prop (task_json t) ''createdAt'' = JNum (t_createdAt t)"
  "get_prop (task_json t) ''due'' = opt_js (map_option JNum (t_due t))"
  "get_prop (task_json t) ''tags'' = JArr (map JStr (t_tags t))"
  "get_prop (task_json t) ''project'' = opt_js (map_option JStr (t_project t))"
  "get_prop (task_json t) ''priority'' = JStr (priority_name (t_priority t))"
  "get_prop (task_json t) ''done'' = JBool (t_done t)"
  "get_prop (task_json t) ''subtasks'' =
     opt_js (map_option (\<lambda>ss. JArr (map subtask_json ss)) (t_subtasks t))"
  by (cases "t_notes t"; cases "t_due t"; cases "t_project t"; cases "t_subtasks t";
      simp add: task_json_def)+

lemma priority_name_truthy: "priority_name p \<noteq> []"
  by (cases p) simp_all

lemma normalize_task_json:
  assumes "schema_ok t" "no_falsy_fields t"
  shows "normalize_record fresh now (task_json t) = Inr (js_of_task t)"
proof -
  have nn: "task_json t \<noteq> Null" "task_json t \<noteq> Undefined" by (simp_all add: task_json_def)
  obtain nt st where o: "t_notes t = Some nt" "t_subtasks t = Some st"
    using assms(1) by (auto simp: schema_ok_def)
  have f: "t_id t \<noteq> []" "t_title t \<noteq> []" "t_createdAt t \<noteq> 0" "t_due t \<noteq> Some 0"
      "t_project t \<noteq> Some []"
    using assms(2) by (simp_all add: no_falsy_fields_def)
  show ?thesis
    using nn o f
    by (cases "t_due t"; cases "t_project t")
       (simp_all add: normalize_record_def get_prop_task_json js_of_task_def js_or_def
          priority_name_truthy)
qed

lemma normalize_all_export:
  assumes "list_all schema_ok ts" "list_all no_falsy_fields ts"
  shows "normalize_all uid clock i (map task_json ts) = Inr (map js_of_task ts)"
  using assms by (induction ts arbitrary: i) (simp_all add: normalize_task_json)

text \<open>
  Claim C7, amended. For every task collection whose records conform to the schema and,
  in addition, have a non-empty id and title, a non-zero createdAt, a due that is absent
  or non-zero and a project that is absent or non-empty, exporting the collection and
  re-importing the export yields a collection equal in content to the original.
\<close>

theorem export_import_round_trip:
  assumes "list_all schema_ok ts" "list_all no_falsy_fields ts"
  shows "importJSON uid clock (Inr (export_value ts)) st = st\<lparr>tasks := map js_of_task ts\<rparr>"
  using normalize_all_export [OF assms, of uid clock 0]
  by (simp add: importJSON_def import_try_def export_value_def)

theorem export_import_round_trip_witness:
  "list_all schema_ok [clean_task] \<and> list_all no_falsy_fields [clean_task] \<and>
   importJSON uid0 clock0 (Inr (export_value [clean_task])) app0 =
     \<lparr>tasks = [js_of_task clean_task], alerts = []\<rparr>"
proof -
  have lw: "toLowerCase ''work'' = ''work''" by code_simp
  have a: "list_all schema_ok [clean_task]"
    by (simp add: schema_ok_def clean_task_def lw)
  have b: "list_all no_falsy_fields [clean_task]"
    by (simp add: no_falsy_fields_def clean_task_def)
  show ?thesis
    using export_import_round_trip [OF a b, of uid0 clock0 app0] a b
    by (simp add: app0_def)
qed

text \<open>
  Claim C7, as stated, fails: a task that conforms to the schema and whose project is the
  empty string (what the tag \<open>#proj:\<close> produces) comes back without a project.
\<close>

theorem export_import_round_trip_counterexample:
  "schema_ok project_task \<and>
   map j_project (tasks (importJSON uid0 clock0 (Inr (export_value [project_task])) app0)) =
     [Undefined] \<and>
   map j_project [js_of_task project_task] = [JStr ''''] \<and>
   tasks (importJSON uid0 clock0 (Inr (export_value [project_task])) app0) \<noteq>
     [js_of_task project_task]"
proof -
  have lw: "toLowerCase ''proj:'' = ''proj:''" by code_simp
  have s: "schema_ok project_task"
    by (simp add: schema_ok_def project_task_def lw)
  have n: "normalize_record (uid0 0) (clock0 0) (task_json project_task) =
             Inr ((js_of_task project_task)\<lparr>j_project := Undefined\<rparr>)"
    by (simp add: normalize_record_def get_prop_task_json js_of_task_def js_or_def project_task_def
          task_json_def)
  have i: "tasks (importJSON uid0 clock0 (Inr (export_value [project_task])) app0) =
             [(js_of_task project_task)\<lparr>j_project := Undefined\<rparr>]"
    by (simp add: importJSON_def import_try_def export_value_def n)
  have p: "j_project (js_of_task project_task) = JStr ''''"
    by (simp add: js_of_task_def project_task_def)
  have d: "(js_of_task project_task)\<lparr>j_project := Undefined\<rparr> \<noteq> js_of_task project_task"
  proof
    assume "(js_of_task project_task)\<lparr>j_project := Undefined\<rparr> = js_of_task project_task"
    then have "j_project ((js_of_task project_task)\<lparr>j_project := Undefined\<rparr>) =
               j_project (js_of_task project_task)" by simp
    then show False by (simp add: p)
  qed
  show ?thesis using s i p d by simp
qed


section \<open>Properties of the stored priority\<close>












section \<open>A due at the epoch instant\<close>



section \<open>Properties of the ingestion pipeline\<close>

lemma extract_example:
  "extractTokens ''Email Alex tomorrow 3pm #work !high'' =
     \<lparr>tok_cleaned = ''Email Alex tomorrow 3pm'', tok_tags = [''work''], tok_priority = Some High\<rparr>"
  by code_simp

lemma excise_example:
  "trim (collapse_ws (take 11 ''Email Alex tomorrow 3pm'' @ '' '' @
     drop (11 + length ''tomorrow 3pm'') ''Email Alex tomorrow 3pm'')) = ''Email Alex''"
  by code_simp

text \<open>
  Claim C1. For the input "Email Alex tomorrow 3pm #work !high" and any reference
  instant, if the date resolver returns as its first match "tomorrow 3pm" at its
  offset 11 in the cleaned text, resolved to 15:00 local on the day after the reference
  instant, then \<open>parseTask\<close> yields the tags \<open>{work}\<close>, priority high, that instant as due and
  the title "Email Alex".
\<close>

theorem parseTask_example:
  assumes "chrono ''Email Alex tomorrow 3pm'' now =
             \<lparr>pr_index = Some 11, pr_text = Some ''tomorrow 3pm'',
              pr_date = setHours tz (addDays now 1) 15 0 0 0\<rparr> # later_matches"
  shows "parseTask chrono now ''Email Alex tomorrow 3pm #work !high'' =
           \<lparr>d_title = ''Email Alex'', d_due = Some (setHours tz (addDays now 1) 15 0 0 0),
            d_tags = [''work''], d_priority = High\<rparr> \<and>
         localDay tz (setHours tz (addDays now 1) 15 0 0 0) = localDay tz now + 1 \<and>
         localTimeOfDay tz (setHours tz (addDays now 1) 15 0 0 0) = 15 * 3600000"
proof -
  have p: "parseTask chrono now ''Email Alex tomorrow 3pm #work !high'' =
           \<lparr>d_title = ''Email Alex'', d_due = Some (setHours tz (addDays now 1) 15 0 0 0),
            d_tags = [''work''], d_priority = High\<rparr>"
    using excise_example
    by (simp add: parseTask_def extract_example assms Let_def)
  have d: "localDay tz (setHours tz (addDays now 1) 15 0 0 0) = localDay tz now + 1"
    unfolding setHours_def using localDay_setHours [of 54000000 tz "addDays now 1"]
    by (simp add: msPerDay_def localDay_addDays)
  have t: "localTimeOfDay tz (setHours tz (addDays now 1) 15 0 0 0) = 15 * 3600000"
    unfolding setHours_def using localTimeOfDay_setHours [of 54000000 tz "addDays now 1"]
    by (simp add: msPerDay_def)
  show ?thesis using p d t by simp
qed

theorem parseTask_example_witness:
  "parseTask (tomorrow_3pm 0) 1000 ''Email Alex tomorrow 3pm #work !high'' =
     \<lparr>d_title = ''Email Alex'', d_due = Some 140400000, d_tags = [''work''], d_priority = High\<rparr>"
proof -
  have h: "tomorrow_3pm 0 ''Email Alex tomorrow 3pm'' 1000 =
             \<lparr>pr_index = Some 11, pr_text = Some ''tomorrow 3pm'',
              pr_date = setHours 0 (addDays 1000 1) 15 0 0 0\<rparr> # []"
    by (simp add: tomorrow_3pm_def)
  have v: "setHours 0 (addDays 1000 1) 15 0 0 0 = 140400000"
    by (simp add: setHours_def addDays_def msPerDay_def)
  show ?thesis
    using parseTask_example [of "tomorrow_3pm 0" 1000 0 "[]"] h by (simp add: v)
qed

section \<open>Properties of priority inference\<close>

lemma inferPriority_plain:
  assumes "\<not> bang_marker (toLowerCase text)" "due \<noteq> Some 0"
  shows "inferPriority now text due = infer_spec now text due"
  using assms
  by (cases due)
     (simp_all add: inferPriority_def infer_spec_def due_rule_def bang_marker_def Let_def)

text \<open>
  Claim C2, amended. For every text and optional due, \<open>inferPriority\<close> applies, first match
  wins, to the lower-cased text it is given: the text contains \<open>!high\<close>, \<open>!important\<close> or
  \<open>!urgent\<close>, or an urgency keyword as a whole word, gives high; it contains \<open>!med\<close> gives
  medium; it contains \<open>!low\<close> gives low; otherwise the five rules of the specification
  apply with a due of 0 counting as absent. So on a text without those markers and with
  a due that is absent or non-zero it follows the five-rule precedence exactly. In
  \<open>parseTask\<close> an explicit marker wins, and otherwise \<open>inferPriority\<close> is applied to the
  cleaned text, after the tags and priority markers have been stripped.
\<close>

theorem inferPriority_rules:
  "inferPriority now text due =
     (let t = toLowerCase text in
      if contains ''!high'' t \<or> contains ''!important'' t \<or> contains ''!urgent'' t \<or>
         urgency_keyword t then High
      else if contains ''!med'' t \<or> contains ''!medium'' t then Medium
      else if contains ''!low'' t then Low
      else infer_spec now text (if due = Some 0 then None else due)) \<and>
   (\<not> bang_marker (toLowerCase text) \<and> due \<noteq> Some 0 \<longrightarrow>
      inferPriority now text due = infer_spec now text due) \<and>
   d_priority (parseTask chrono now input) =
     (case tok_priority (extractTokens input) of
        Some p \<Rightarrow> p
      | None \<Rightarrow> inferPriority now (tok_cleaned (extractTokens input))
                  (d_due (parseTask chrono now input)))"
proof -
  have c: "inferPriority now text due =
     (let t = toLowerCase text in
      if contains ''!high'' t \<or> contains ''!important'' t \<or> contains ''!urgent'' t \<or>
         urgency_keyword t then High
      else if contains ''!med'' t \<or> contains ''!medium'' t then Medium
      else if contains ''!low'' t then Low
      else infer_spec now text (if due = Some 0 then None else due))"
    by (cases due) (simp_all add: inferPriority_def infer_spec_def due_rule_def Let_def)
  have d: "d_due (parseTask chrono now input) =
             (case chrono (tok_cleaned (extractTokens input)) now of
                [] \<Rightarrow> None | first # _ \<Rightarrow> Some (pr_date first))"
    by (simp add: parseTask_def Let_def)
  have p: "d_priority (parseTask chrono now input) =
     (case tok_priority (extractTokens input) of
        Some p \<Rightarrow> p
      | None \<Rightarrow> inferPriority now (tok_cleaned (extractTokens input))
                  (d_due (parseTask chrono now input)))"
    unfolding d by (simp add: parseTask_def Let_def)
  show ?thesis
    using c p inferPriority_plain [of "text" due now] by blast
qed

text \<open>
  Claim C2, as stated, fails twice: \<open>!important\<close> makes the inferred priority high where
  the five rules give medium, and the keyword inside the stripped tag \<open>#today\<close> does not
  make the ingested task high.
\<close>

theorem inferPriority_rules_counterexample:
  "inferPriority 0 ''call mom !important'' None = High \<and>
   infer_spec 0 ''call mom !important'' None = Medium \<and>
   tok_priority (extractTokens ''Buy milk #today'') = None \<and>
   urgency_keyword (toLowerCase ''Buy milk #today'') \<and>
   d_priority (parseTask no_dates 0 ''Buy milk #today'') = Medium"
proof -
  have "inferPriority 0 ''call mom !important'' None = High" by code_simp
  moreover have "infer_spec 0 ''call mom !important'' None = Medium" by code_simp
  moreover have "tok_priority (extractTokens ''Buy milk #today'') = None" by code_simp
  moreover have "urgency_keyword (toLowerCase ''Buy milk #today'')" by code_simp
  moreover have "d_priority (parseTask no_dates 0 ''Buy milk #today'') = Medium" by code_simp
  ultimately show ?thesis by simp
qed

theorem inferPriority_rules_witness:
  "\<not> bang_marker (toLowerCase ''Ship the report'') \<and>
   inferPriority 0 ''Ship the report'' (Some 36000000) = High \<and>
   infer_spec 0 ''Ship the report'' (Some 36000000) = High \<and>
   d_priority (parseTask no_dates 0 ''Plan trip someday'') = Low"
proof -
  have b: "\<not> bang_marker (toLowerCase ''Ship the report'')" by code_simp
  have s: "infer_spec 0 ''Ship the report'' (Some 36000000) = High" by code_simp
  have e: "tok_priority (extractTokens ''Plan trip someday'') = None" by code_simp
  have c: "tok_cleaned (extractTokens ''Plan trip someday'') = ''Plan trip someday''" by code_simp
  have d: "d_due (parseTask no_dates 0 ''Plan trip someday'') = None"
    by (simp add: parseTask_def no_dates_def Let_def)
  have i: "inferPriority 0 ''Plan trip someday'' None = Low" by code_simp
  note r = inferPriority_rules [of 0 "''Ship the report''" "Some 36000000" no_dates
      "''Plan trip someday''"]
  have r2: "\<not> bang_marker (toLowerCase ''Ship the report'') \<and> Some 36000000 \<noteq> Some (0::int) \<longrightarrow>
      inferPriority 0 ''Ship the report'' (Some 36000000) =
      infer_spec 0 ''Ship the report'' (Some 36000000)"
    by (rule conjunct1 [OF conjunct2 [OF r]])
  have r3: "d_priority (parseTask no_dates 0 ''Plan trip someday'') =
     (case tok_priority (extractTokens ''Plan trip someday'') of
        Some p \<Rightarrow> p
      | None \<Rightarrow> inferPriority 0 (tok_cleaned (extractTokens ''Plan trip someday''))
                  (d_due (parseTask no_dates 0 ''Plan trip someday'')))"
    by (rule conjunct2 [OF conjunct2 [OF r]])
  show ?thesis
    using r2 b s by (simp add: r3 e c d i)
qed

section \<open>Properties of token extraction\<close>

subsection \<open>Character facts\<close>


lemma hash_not_tag_char: "\<not> is_tag_char CHR ''#''"
  by (simp add: is_tag_char_def is_letter_def is_number_def code_def)



lemma hash_not_space: "\<not> is_space CHR ''#''"
  by (simp add: is_space_def code_def)

lemma bang_not_space: "\<not> is_space CHR ''!''"
  by (simp add: is_space_def code_def)

lemma alpha_tag_char: "is_alpha c \<Longrightarrow> is_tag_char c"
  by (auto simp: is_alpha_def is_tag_char_def is_letter_def Let_def)




subsection \<open>Matches at the head depend on a prefix only\<close>








lemma takeWhile_alpha_eq:
  "takeWhile is_tag_char xs = takeWhile is_tag_char ys \<Longrightarrow>
   takeWhile is_alpha xs = takeWhile is_alpha ys"
proof -
  assume e: "takeWhile is_tag_char xs = takeWhile is_tag_char ys"
  have "takeWhile is_alpha (takeWhile is_tag_char zs) = takeWhile is_alpha zs" for zs
    by (induction zs) (auto dest: alpha_tag_char)
  from this [of xs] this [of ys] e show ?thesis by simp
qed

subsection \<open>Occurrences in parts of a text\<close>








lemma has_marker_append_right: "has_marker ys \<Longrightarrow> has_marker (xs @ ys)"
  by (induction xs) auto

lemma has_marker_drop: "has_marker (drop n s) \<Longrightarrow> has_marker s"
  using has_marker_append_right [of "drop n s" "take n s"] by simp





subsection \<open>What the scans find\<close>




subsection \<open>Stage 1: tag removal leaves no tag\<close>




subsection \<open>Stage 2: marker removal\<close>








subsection \<open>Stage 3: collapsing white space\<close>







subsection \<open>The cleaned text\<close>






end
